theory Spec2Isabelle
  imports Main "HOL-Library.Char_ord" "HOL-Library.List_Lexorder"
begin

section \<open>The Go library functions that \<open>allyapi.go\<close> calls\<close>

text \<open>
  \<open>allyapi.go\<close> is a single Go file. The functions of the Go standard library that
  it calls are modelled here from their documented behaviour, as far as the program
  depends on them. Go strings are byte strings: \<open>string\<close>. Go's \<open>int\<close> and \<open>int64\<close>
  are \<open>int\<close>, with the bounds of 64 bits written out where a value can leave them.
\<close>

subsection \<open>\<open>strings.Split\<close>, \<open>strings.Join\<close>, \<open>strings.HasPrefix\<close>\<close>

text \<open>
  \<open>strings.Split(s, sep)\<close> for a separator of one byte, which is how the program calls
  it (\<open>"."\<close> and \<open>","\<close>): the pieces of \<open>s\<close> between the separators, so one piece more
  than there are separators; \<open>Split("", sep)\<close> is the one empty piece.
\<close>

fun strings_Split :: "string \<Rightarrow> char \<Rightarrow> string list" where
  "strings_Split [] sep = [[]]"
| "strings_Split (c # cs) sep =
     (if c = sep then [] # strings_Split cs sep
      else (case strings_Split cs sep of
              [] \<Rightarrow> [[c]]
            | p # ps \<Rightarrow> (c # p) # ps))"

text \<open>\<open>strings.Join(elems, sep)\<close> for a separator of one byte.\<close>

fun strings_Join :: "string list \<Rightarrow> char \<Rightarrow> string" where
  "strings_Join [] sep = []"
| "strings_Join [x] sep = x"
| "strings_Join (x # y # ys) sep = x @ sep # strings_Join (y # ys) sep"

definition strings_HasPrefix :: "string \<Rightarrow> string \<Rightarrow> bool" where
  "strings_HasPrefix s p = (take (length p) s = p)"

subsection \<open>\<open>strconv.ParseInt(s, 10, 64)\<close> and \<open>strconv.Atoi\<close>\<close>

datatype numError = ErrSyntax | ErrRange

definition maxUint64 :: int where
  "maxUint64 = 18446744073709551615"

definition maxInt64 :: int where
  "maxInt64 = 9223372036854775807"

definition minInt64 :: int where
  "minInt64 = - 9223372036854775808"

definition isDigit :: "char \<Rightarrow> bool" where
  "isDigit c = ((48::int) \<le> of_char c \<and> of_char c \<le> (57::int))"

definition digitVal :: "char \<Rightarrow> int" where
  "digitVal c = of_char c - 48"

text \<open>
  The loop of \<open>strconv.ParseUint(s, 10, 64)\<close> over the bytes of \<open>s\<close>, with the value
  \<open>n\<close> read so far. A byte that is no decimal digit is a syntax error with value 0.
  The loop stops with \<open>maxUint64\<close> and a range error as soon as the value leaves 64
  bits (Go tests \<open>n >= cutoff\<close> before the multiplication and the wrap-around of the
  addition after it), without reading the bytes that follow.
\<close>

fun ParseUint_loop :: "int \<Rightarrow> string \<Rightarrow> int \<times> numError option" where
  "ParseUint_loop n [] = (n, None)"
| "ParseUint_loop n (c # cs) =
     (if \<not> isDigit c then (0, Some ErrSyntax)
      else if n \<ge> maxUint64 div 10 + 1 then (maxUint64, Some ErrRange)
      else if n * 10 + digitVal c > maxUint64 then (maxUint64, Some ErrRange)
      else ParseUint_loop (n * 10 + digitVal c) cs)"

definition strconv_ParseUint :: "string \<Rightarrow> int \<times> numError option" where
  "strconv_ParseUint s = (if s = [] then (0, Some ErrSyntax) else ParseUint_loop 0 s)"

text \<open>
  \<open>strconv.ParseInt(s, 10, 64)\<close>: an optional sign, then \<open>ParseUint\<close>. A syntax error
  returns 0; a value out of range returns the nearest bound and a range error.
\<close>

definition strconv_ParseInt :: "string \<Rightarrow> int \<times> numError option" where
  "strconv_ParseInt s =
     (if s = [] then (0, Some ErrSyntax)
      else
        let neg = (hd s = CHR ''-'');
            s1 = (if hd s = CHR ''+'' \<or> hd s = CHR ''-'' then tl s else s);
            (un, err) = strconv_ParseUint s1
        in if err = Some ErrSyntax then (0, Some ErrSyntax)
           else if \<not> neg \<and> un \<ge> 9223372036854775808 then (maxInt64, Some ErrRange)
           else if neg \<and> un > 9223372036854775808 then (minInt64, Some ErrRange)
           else (if neg then - un else un, None))"

text \<open>
  \<open>strconv.Atoi\<close> where \<open>int\<close> has 64 bits: its fast path for short inputs computes
  what \<open>ParseInt(s, 10, 0)\<close> does, which is its slow path.
\<close>

definition strconv_Atoi :: "string \<Rightarrow> int \<times> numError option" where
  "strconv_Atoi s = strconv_ParseInt s"

subsection \<open>\<open>time.Unix\<close>\<close>

text \<open>
  A \<open>time.Time\<close> as its Unix time: seconds since 1970-01-01T00:00:00Z and nanoseconds
  within the second. \<open>time.Unix(sec, nsec)\<close> carries nanoseconds outside
  \<open>[0, 999999999]\<close> into the seconds; Go's \<open>/\<close> truncates towards zero, and the
  addition to \<open>sec\<close> wraps around in 64 bits.
\<close>

record Time =
  unixSec :: int
  unixNsec :: int

definition wrap64 :: "int \<Rightarrow> int" where
  "wrap64 x = (x + 9223372036854775808) mod 18446744073709551616 - 9223372036854775808"

definition quo :: "int \<Rightarrow> int \<Rightarrow> int" where
  "quo a b = sgn a * sgn b * (\<bar>a\<bar> div \<bar>b\<bar>)"

definition time_Unix :: "int \<Rightarrow> int \<Rightarrow> Time" where
  "time_Unix sec nsec =
     (if nsec < 0 \<or> nsec \<ge> 1000000000 then
        let n = quo nsec 1000000000;
            sec1 = wrap64 (sec + n);
            nsec1 = nsec - n * 1000000000
        in if nsec1 < 0 then \<lparr>unixSec = wrap64 (sec1 - 1), unixNsec = nsec1 + 1000000000\<rparr>
           else \<lparr>unixSec = sec1, unixNsec = nsec1\<rparr>
      else \<lparr>unixSec = sec, unixNsec = nsec\<rparr>)"

section \<open>\<open>timestampToDate\<close>\<close>

datatype panic = IndexOutOfRange

datatype logLine =
    LogTimestampError    \<comment> \<open>\<open>"Error converting timestamp string to int64"\<close>\<close>
  | LogRemainingError    \<comment> \<open>\<open>"Unable to determine API calls remaining"\<close>\<close>

text \<open>
  The loop \<open>for i, s := range strings.Split(str, ".")\<close> with the index \<open>i\<close>, the pieces
  still to visit, the slice \<open>timestampArr\<close> and the lines logged so far. An empty piece is
  skipped. For a piece that is not empty, \<open>timestampArr[i]\<close> is assigned what \<open>ParseInt\<close>
  returns, error or not, and an error is logged; the assignment panics when \<open>i\<close> is not an
  index of the slice.
\<close>

fun timestampToDate_loop ::
  "nat \<Rightarrow> string list \<Rightarrow> int list \<Rightarrow> logLine list \<Rightarrow> logLine list \<times> (panic + int list)" where
  "timestampToDate_loop i [] timestampArr lg = (lg, Inr timestampArr)"
| "timestampToDate_loop i (s # ss) timestampArr lg =
     (if s \<noteq> [] then
        (if i < length timestampArr then
           (case strconv_ParseInt s of
              (v, err) \<Rightarrow>
                timestampToDate_loop (Suc i) ss (timestampArr[i := v])
                  (if err \<noteq> None then lg @ [LogTimestampError] else lg))
         else (lg, Inl IndexOutOfRange))
      else timestampToDate_loop (Suc i) ss timestampArr lg)"

text \<open>
  \<open>timestampToDate\<close> returns the lines it logged and either the panic or the time
  \<open>time.Unix(timestampArr[0], timestampArr[1])\<close>; the slice is made with two zeros.
\<close>

definition timestampToDate :: "string \<Rightarrow> logLine list \<times> (panic + Time)" where
  "timestampToDate str =
     (case timestampToDate_loop 0 (strings_Split str CHR ''.'') [0, 0] [] of
        (lg, Inl p) \<Rightarrow> (lg, Inl p)
      | (lg, Inr timestampArr) \<Rightarrow> (lg, Inr (time_Unix (timestampArr ! 0) (timestampArr ! 1))))"

section \<open>The data of the program\<close>

text \<open>
  \<open>type quoteArray []map[string]string\<close>. A Go map is \<open>nil\<close> or a finite map: an array
  element \<open>null\<close> decodes to the \<open>nil\<close> map, which prints as \<open>null\<close> where the empty map
  prints as \<open>{}\<close>. The \<open>nil\<close> slice and the empty slice are both \<open>[]\<close>: the field
  \<open>Quote\<close> is \<open>omitempty\<close>, so the program cannot tell them apart.
\<close>

type_synonym goMap = "(string \<rightharpoonup> string) option"

type_synonym quoteArray = "goMap list"

text \<open>
  \<open>type apiResponse struct\<close> with its anonymous structs. A pointer to a struct is an
  \<open>option\<close>. The values of \<open>float32\<close> and of \<open>interface{}\<close> are not looked into.
\<close>

typedecl float32

typedecl anyValue

record quotesT =
  QuoteType :: string
  Quote :: quoteArray

record responseT =
  ID :: string
  ElapsedTime :: int
  Error :: string
  Quotes :: "quotesT option"

record tradeT =
  Cvol :: int
  DateTime :: string
  Exch :: "(string \<rightharpoonup> anyValue) option"
  Last :: float32
  Symbol :: string
  Timestamp :: int
  Vl :: int
  Vwap :: float32

record apiResponse =
  Status :: string
  Response :: "responseT option"
  Trade :: "tradeT option"

datatype error =
    ErrNoInput          \<comment> \<open>\<open>errors.New("No input")\<close>\<close>
  | ErrJSON             \<comment> \<open>an error of \<open>json.Unmarshal\<close>: a syntax error or a value of the wrong type\<close>
  | ErrLibrary string   \<comment> \<open>an error that \<open>net/http\<close> or the JSON decoder of the body returns\<close>

section \<open>\<open>json.Unmarshal\<close> into \<open>map[string]string\<close> and \<open>[]map[string]string\<close>\<close>

text \<open>
  \<open>json.Unmarshal(data, &v)\<close> returns an error unless \<open>data\<close> is one JSON value between
  optional white space and every value in it has the type that its place in \<open>v\<close> asks
  for. For the two types the program decodes into, the inputs without error are: for a
  map, \<open>null\<close> or an object whose members are strings or \<open>null\<close>; for a slice of maps,
  \<open>null\<close> or an array of such values. The decoder is modelled as Go's own scanner is
  written, as a machine that steps over the bytes, here for these inputs only: every other
  input ends in the error state. A syntax error and a value of the wrong type are the one
  error \<open>ErrJSON\<close>.

  The text of a string literal is what \<open>unq\<close> makes of the bytes between its quotes
  (Go's \<open>unquote\<close>: escapes replaced, invalid UTF-8 replaced by U+FFFD). It is a parameter
  of the decoder: the theorems hold for every \<open>unq\<close>.
\<close>

definition isSpace :: "char \<Rightarrow> bool" where
  "isSpace c = (c = CHR '' '' \<or> c = CHR 0x09 \<or> c = CHR 0x0D \<or> c = CHR 0x0A)"

definition isHex :: "char \<Rightarrow> bool" where
  "isHex c =
     (let n = (of_char c :: int)
      in (48 \<le> n \<and> n \<le> 57) \<or> (65 \<le> n \<and> n \<le> 70) \<or> (97 \<le> n \<and> n \<le> 102))"

text \<open>
  Inside a string literal (the scanner's \<open>stateInString\<close>, \<open>stateInStringEsc\<close>,
  \<open>stateInStringEscU\<close> to \<open>stateInStringEscU123\<close>): after a backslash one of
  \<open>b f n r t \ / "\<close>, or \<open>u\<close> and four hexadecimal digits; no byte below \<open>0x20\<close>.
\<close>

datatype strState =
    InString
  | InStringEsc
  | InStringEscU nat   \<comment> \<open>the number of hexadecimal digits read\<close>

datatype strResult = StrMore strState | StrEnd | StrBad

fun strStep :: "strState \<Rightarrow> char \<Rightarrow> strResult" where
  "strStep InString c =
     (if c = CHR 0x22 then StrEnd
      else if c = CHR 0x5C then StrMore InStringEsc
      else if (of_char c :: int) < 32 then StrBad
      else StrMore InString)"
| "strStep InStringEsc c =
     (if c \<in> set ''bfnrt/'' \<or> c = CHR 0x5C \<or> c = CHR 0x22 then StrMore InString
      else if c = CHR ''u'' then StrMore (InStringEscU 0)
      else StrBad)"
| "strStep (InStringEscU k) c =
     (if isHex c then (if k \<ge> 3 then StrMore InString else StrMore (InStringEscU (Suc k)))
      else StrBad)"

text \<open>
  Inside an object, after its \<open>{\<close>. The map holds the members read so far; a key read
  again replaces its value, and the value \<open>null\<close> leaves the empty string.
\<close>

datatype objState =
    ObjFirstKey "string \<rightharpoonup> string"
      \<comment> \<open>after \<open>{\<close>: space, the \<open>"\<close> of a key, or \<open>}\<close>\<close>
  | ObjKey "string \<rightharpoonup> string" string strState
      \<comment> \<open>in the literal of a key, with its bytes so far\<close>
  | ObjColon "string \<rightharpoonup> string" string
      \<comment> \<open>after the key: space or \<open>:\<close>\<close>
  | ObjValue "string \<rightharpoonup> string" string
      \<comment> \<open>after \<open>:\<close>: space, the \<open>"\<close> of a string, or the \<open>n\<close> of \<open>null\<close>\<close>
  | ObjString "string \<rightharpoonup> string" string string strState
      \<comment> \<open>in the literal of a value, with its bytes so far\<close>
  | ObjNull "string \<rightharpoonup> string" string nat
      \<comment> \<open>in \<open>null\<close>, with the number of its bytes read\<close>
  | ObjAfterValue "string \<rightharpoonup> string"
      \<comment> \<open>after a value: space, \<open>,\<close> or \<open>}\<close>\<close>
  | ObjNextKey "string \<rightharpoonup> string"
      \<comment> \<open>after \<open>,\<close>: space or the \<open>"\<close> of a key\<close>
  | ObjEnd "string \<rightharpoonup> string"
      \<comment> \<open>after \<open>}\<close>\<close>
  | ObjError

fun objStep :: "(string \<Rightarrow> string) \<Rightarrow> objState \<Rightarrow> char \<Rightarrow> objState" where
  "objStep unq (ObjFirstKey m) c =
     (if isSpace c then ObjFirstKey m
      else if c = CHR 0x22 then ObjKey m [] InString
      else if c = CHR ''}'' then ObjEnd m
      else ObjError)"
| "objStep unq (ObjKey m raw st) c =
     (case strStep st c of
        StrMore st1 \<Rightarrow> ObjKey m (raw @ [c]) st1
      | StrEnd \<Rightarrow> ObjColon m (unq raw)
      | StrBad \<Rightarrow> ObjError)"
| "objStep unq (ObjColon m k) c =
     (if isSpace c then ObjColon m k
      else if c = CHR '':'' then ObjValue m k
      else ObjError)"
| "objStep unq (ObjValue m k) c =
     (if isSpace c then ObjValue m k
      else if c = CHR 0x22 then ObjString m k [] InString
      else if c = CHR ''n'' then ObjNull m k 1
      else ObjError)"
| "objStep unq (ObjString m k raw st) c =
     (case strStep st c of
        StrMore st1 \<Rightarrow> ObjString m k (raw @ [c]) st1
      | StrEnd \<Rightarrow> ObjAfterValue (m(k \<mapsto> unq raw))
      | StrBad \<Rightarrow> ObjError)"
| "objStep unq (ObjNull m k n) c =
     (if n < 4 \<and> c = ''null'' ! n
      then (if n = 3 then ObjAfterValue (m(k \<mapsto> [])) else ObjNull m k (Suc n))
      else ObjError)"
| "objStep unq (ObjAfterValue m) c =
     (if isSpace c then ObjAfterValue m
      else if c = CHR '','' then ObjNextKey m
      else if c = CHR ''}'' then ObjEnd m
      else ObjError)"
| "objStep unq (ObjNextKey m) c =
     (if isSpace c then ObjNextKey m
      else if c = CHR 0x22 then ObjKey m [] InString
      else ObjError)"
| "objStep unq (ObjEnd m) c = ObjError"
| "objStep unq ObjError c = ObjError"

text \<open>\<open>json.Unmarshal(data, &mp)\<close> for \<open>var mp map[string]string\<close>, which is \<open>nil\<close> before.\<close>

datatype mapState =
    MapBegin              \<comment> \<open>before the value: space, \<open>{\<close> or the \<open>n\<close> of \<open>null\<close>\<close>
  | MapNull nat
  | MapObj objState
  | MapEnd goMap          \<comment> \<open>after the value: space\<close>
  | MapError

fun mapStep :: "(string \<Rightarrow> string) \<Rightarrow> mapState \<Rightarrow> char \<Rightarrow> mapState" where
  "mapStep unq MapBegin c =
     (if isSpace c then MapBegin
      else if c = CHR ''{'' then MapObj (ObjFirstKey Map.empty)
      else if c = CHR ''n'' then MapNull 1
      else MapError)"
| "mapStep unq (MapNull n) c =
     (if n < 4 \<and> c = ''null'' ! n
      then (if n = 3 then MapEnd None else MapNull (Suc n))
      else MapError)"
| "mapStep unq (MapObj st) c =
     (case objStep unq st c of
        ObjEnd m \<Rightarrow> MapEnd (Some m)
      | ObjError \<Rightarrow> MapError
      | st1 \<Rightarrow> MapObj st1)"
| "mapStep unq (MapEnd r) c = (if isSpace c then MapEnd r else MapError)"
| "mapStep unq MapError c = MapError"

definition json_Unmarshal_map :: "(string \<Rightarrow> string) \<Rightarrow> string \<Rightarrow> error + goMap" where
  "json_Unmarshal_map unq data =
     (case foldl (mapStep unq) MapBegin data of
        MapEnd r \<Rightarrow> Inr r
      | _ \<Rightarrow> Inl ErrJSON)"

text \<open>\<open>json.Unmarshal(data, &q)\<close> for \<open>var q []map[string]string\<close>.\<close>

datatype sliceState =
    SliceBegin                      \<comment> \<open>before the value: space, \<open>[\<close> or the \<open>n\<close> of \<open>null\<close>\<close>
  | SliceNull nat
  | SliceFirst                      \<comment> \<open>after \<open>[\<close>: space, \<open>]\<close> or an element\<close>
  | SliceObj quoteArray objState    \<comment> \<open>in an element that is an object\<close>
  | SliceElemNull quoteArray nat    \<comment> \<open>in an element that is \<open>null\<close>\<close>
  | SliceAfterValue quoteArray      \<comment> \<open>after an element: space, \<open>,\<close> or \<open>]\<close>\<close>
  | SliceNext quoteArray            \<comment> \<open>after \<open>,\<close>: space or an element\<close>
  | SliceEnd quoteArray             \<comment> \<open>after the value: space\<close>
  | SliceError

definition sliceElem :: "quoteArray \<Rightarrow> char \<Rightarrow> sliceState" where
  "sliceElem q c =
     (if c = CHR ''{'' then SliceObj q (ObjFirstKey Map.empty)
      else if c = CHR ''n'' then SliceElemNull q 1
      else SliceError)"

fun sliceStep :: "(string \<Rightarrow> string) \<Rightarrow> sliceState \<Rightarrow> char \<Rightarrow> sliceState" where
  "sliceStep unq SliceBegin c =
     (if isSpace c then SliceBegin
      else if c = CHR ''['' then SliceFirst
      else if c = CHR ''n'' then SliceNull 1
      else SliceError)"
| "sliceStep unq (SliceNull n) c =
     (if n < 4 \<and> c = ''null'' ! n
      then (if n = 3 then SliceEnd [] else SliceNull (Suc n))
      else SliceError)"
| "sliceStep unq SliceFirst c =
     (if isSpace c then SliceFirst
      else if c = CHR '']'' then SliceEnd []
      else sliceElem [] c)"
| "sliceStep unq (SliceObj q st) c =
     (case objStep unq st c of
        ObjEnd m \<Rightarrow> SliceAfterValue (q @ [Some m])
      | ObjError \<Rightarrow> SliceError
      | st1 \<Rightarrow> SliceObj q st1)"
| "sliceStep unq (SliceElemNull q n) c =
     (if n < 4 \<and> c = ''null'' ! n
      then (if n = 3 then SliceAfterValue (q @ [None]) else SliceElemNull q (Suc n))
      else SliceError)"
| "sliceStep unq (SliceAfterValue q) c =
     (if isSpace c then SliceAfterValue q
      else if c = CHR '','' then SliceNext q
      else if c = CHR '']'' then SliceEnd q
      else SliceError)"
| "sliceStep unq (SliceNext q) c =
     (if isSpace c then SliceNext q else sliceElem q c)"
| "sliceStep unq (SliceEnd q) c = (if isSpace c then SliceEnd q else SliceError)"
| "sliceStep unq SliceError c = SliceError"

definition json_Unmarshal_slice :: "(string \<Rightarrow> string) \<Rightarrow> string \<Rightarrow> error + quoteArray" where
  "json_Unmarshal_slice unq data =
     (case foldl (sliceStep unq) SliceBegin data of
        SliceEnd q \<Rightarrow> Inr q
      | _ \<Rightarrow> Inl ErrJSON)"

section \<open>\<open>quoteArray.UnmarshalJSON\<close>\<close>

text \<open>
  The method gets the value \<open>qa\<close> of \<open>*qa\<close> and returns the error, or the value of \<open>*qa\<close>
  when it returns \<open>nil\<close>. The \<open>switch\<close> has no \<open>default\<close>: after it the method returns
  \<open>nil\<close>.
\<close>

definition UnmarshalJSON :: "(string \<Rightarrow> string) \<Rightarrow> quoteArray \<Rightarrow> string \<Rightarrow> error + quoteArray" where
  "UnmarshalJSON unq qa data =
     (if length data < 1 then Inl ErrNoInput
      else if data ! 0 = CHR ''['' then
        (case json_Unmarshal_slice unq data of
           Inl err \<Rightarrow> Inl err
         | Inr q \<Rightarrow> Inr q)
      else if data ! 0 = CHR ''{'' then
        (case json_Unmarshal_map unq data of
           Inl err \<Rightarrow> Inl err
         | Inr mp \<Rightarrow> Inr [mp])
      else Inr qa)"

section \<open>HTTP requests and responses\<close>

text \<open>\<open>http.Header\<close> is \<open>map[string][]string\<close>.\<close>

type_synonym header = "string \<rightharpoonup> string list"

record request =
  Method :: string
  URL :: string
  ReqHeader :: "(string \<times> string) list"
  ReqBody :: string

text \<open>
  Of a \<open>*http.Response\<close> the program reads \<open>Header\<close> and \<open>Body\<close>. The body is read
  through a \<open>json.Decoder\<close> only, so \<open>Body\<close> is the state \<open>'d\<close> of that decoder.
\<close>

record 'd httpResponse =
  Header :: header
  Body :: 'd

text \<open>
  What the program does not compute itself is a parameter: whether \<open>http.NewRequest\<close>
  refuses the method or the URL, the signed transport \<open>ac.Do\<close>, the decoder of the body
  (\<open>decoder.More()\<close>, and \<open>decoder.Decode(&m)\<close> which returns an error or the decoded
  \<open>apiResponse\<close>, and the decoder after the call), and \<open>json.MarshalIndent(m, "", "  ")\<close>.
  Every theorem holds for all of them.
\<close>

record 'd env =
  NewRequest_err :: "string \<Rightarrow> string \<Rightarrow> error option"
  Do :: "request \<Rightarrow> error + 'd httpResponse"
  More :: "'d \<Rightarrow> bool"
  Decode :: "'d \<Rightarrow> (error + apiResponse) \<times> 'd"
  MarshalIndent :: "apiResponse \<Rightarrow> error + string"

subsection \<open>\<open>url.Values.Encode\<close>\<close>

definition isAlnum :: "char \<Rightarrow> bool" where
  "isAlnum c =
     (let n = (of_char c :: int)
      in (48 \<le> n \<and> n \<le> 57) \<or> (65 \<le> n \<and> n \<le> 90) \<or> (97 \<le> n \<and> n \<le> 122))"

text \<open>
  \<open>url.QueryEscape\<close>: letters, digits and \<open>- _ . ~\<close> stay, a space becomes \<open>+\<close>, every other
  byte becomes \<open>%XX\<close> with upper-case hexadecimal digits.
\<close>

definition shouldEscape :: "char \<Rightarrow> bool" where
  "shouldEscape c = (\<not> (isAlnum c \<or> c \<in> set ''-_.~''))"

definition upperhex :: "nat \<Rightarrow> char" where
  "upperhex n = ''0123456789ABCDEF'' ! n"

fun url_QueryEscape :: "string \<Rightarrow> string" where
  "url_QueryEscape [] = []"
| "url_QueryEscape (c # cs) =
     (if c = CHR '' '' then CHR ''+'' # url_QueryEscape cs
      else if shouldEscape c then
        CHR ''%'' # upperhex (of_char c div 16) # upperhex (of_char c mod 16) # url_QueryEscape cs
      else c # url_QueryEscape cs)"

text \<open>
  \<open>url.QueryUnescape\<close>, by which the receiver of a form reads a key or a value: \<open>+\<close> is
  a space and \<open>%XX\<close> the byte with these hexadecimal digits; a \<open>%\<close> without two
  hexadecimal digits after it is an error.
\<close>

definition unhex :: "char \<Rightarrow> nat" where
  "unhex c =
     (let n = (of_char c :: nat)
      in if 48 \<le> n \<and> n \<le> 57 then n - 48
         else if 97 \<le> n \<and> n \<le> 102 then n - 97 + 10
         else if 65 \<le> n \<and> n \<le> 70 then n - 65 + 10
         else 0)"

fun url_QueryUnescape :: "string \<Rightarrow> string option" where
  "url_QueryUnescape [] = Some []"
| "url_QueryUnescape (c # cs) =
     (if c = CHR ''%'' then
        (case cs of
           h1 # h2 # rest \<Rightarrow>
             if isHex h1 \<and> isHex h2
             then map_option ((#) (char_of (unhex h1 * 16 + unhex h2))) (url_QueryUnescape rest)
             else None
         | _ \<Rightarrow> None)
      else map_option ((#) (if c = CHR ''+'' then CHR '' '' else c)) (url_QueryUnescape cs))"

text \<open>
  \<open>url.Values.Encode\<close>: the keys sorted, and \<open>key=value\<close> for every value of every key,
  joined by \<open>&\<close>. The values are given as the list of the entries of the Go map, one entry
  for each key.
\<close>

definition url_Values_Encode :: "(string \<times> string list) list \<Rightarrow> string" where
  "url_Values_Encode v =
     strings_Join
       (concat (map (\<lambda>(k, vs). map (\<lambda>x. url_QueryEscape k @ CHR ''='' # url_QueryEscape x) vs)
                    (sort_key fst v)))
       CHR ''&''"

section \<open>\<open>doAPICall\<close>\<close>

text \<open>
  What the program prints to standard output: the line \<open>fmt.Println(string(b))\<close> of a
  decoded value, and the two lines of the warning, \<open>"Warning: only %v API calls remaining"\<close>
  and \<open>"Current limit set to expire at %v"\<close>, each with the value it formats.
\<close>

datatype outLine =
    Println string
  | WarningRemaining int
  | ExpireAt Time

text \<open>
  The state that a call changes: the field \<open>APICallsRemaining\<close> of the client, the lines
  written to standard output and to the log, and the goroutines started under the wait
  group \<open>wg\<close>, each with the header of the response it has captured.
\<close>

record state =
  APICallsRemaining :: int
  stdout :: "outLine list"
  logged :: "logLine list"
  wg :: "header list"

text \<open>\<open>m[k][0]\<close> on a header: a missing key gives the \<open>nil\<close> slice, whose index 0 panics.\<close>

definition header0 :: "header \<Rightarrow> string \<Rightarrow> panic + string" where
  "header0 h k =
     (case h k of
        None \<Rightarrow> Inl IndexOutOfRange
      | Some [] \<Rightarrow> Inl IndexOutOfRange
      | Some (v # _) \<Rightarrow> Inr v)"

text \<open>
  The body of the goroutine of \<open>doAPICall\<close> (between \<open>Lock\<close> and \<open>Unlock\<close>), run on the
  header of the response. It returns the state it leaves and the panic, if it panics.
\<close>

definition rateLimitUpdate :: "header \<Rightarrow> state \<Rightarrow> state \<times> panic option" where
  "rateLimitUpdate h s =
     (case header0 h ''X-Ratelimit-Remaining'' of
        Inl p \<Rightarrow> (s, Some p)
      | Inr r \<Rightarrow>
          (case strconv_Atoi r of
             (n, err) \<Rightarrow>
               let s1 = s\<lparr>APICallsRemaining := n\<rparr>;
                   s2 = (if err \<noteq> None then s1\<lparr>logged := logged s1 @ [LogRemainingError]\<rparr> else s1)
               in if APICallsRemaining s2 < 10 then
                    let s3 = s2\<lparr>stdout := stdout s2 @ [WarningRemaining (APICallsRemaining s2)]\<rparr>
                    in (case header0 h ''X-Ratelimit-Expire'' of
                          Inl p \<Rightarrow> (s3, Some p)
                        | Inr e \<Rightarrow>
                            (case timestampToDate e of
                               (lg, Inl p) \<Rightarrow> (s3\<lparr>logged := logged s3 @ lg\<rparr>, Some p)
                             | (lg, Inr expiration) \<Rightarrow>
                                 (s3\<lparr>logged := logged s3 @ lg,
                                     stdout := stdout s3 @ [ExpireAt expiration]\<rparr>, None)))
                  else (s2, None)))"

text \<open>
  The first part of \<open>doAPICall\<close>, up to the request it hands to \<open>ac.Do\<close>. A \<open>nil\<close> map
  \<open>data\<close> is \<open>None\<close>. \<open>http.NewRequest\<close> reads the empty method as \<open>GET\<close>.
\<close>

definition apiRoot :: string where
  "apiRoot = ''https://devapi.invest.ally.com/v1''"

definition newRequest ::
  "'d env \<Rightarrow> string \<Rightarrow> string \<Rightarrow> (string \<times> string list) list option \<Rightarrow> error + request" where
  "newRequest env endpoint method data =
     (let endpoint1 = (if strings_HasPrefix endpoint ''/'' then apiRoot @ endpoint else endpoint);
          dataString = (case data of None \<Rightarrow> [] | Some v \<Rightarrow> url_Values_Encode v)
      in case NewRequest_err env method endpoint1 of
           Some err \<Rightarrow> Inl err
         | None \<Rightarrow>
             let m = (if method = [] then ''GET'' else method)
             in Inr \<lparr>Method = m, URL = endpoint1,
                     ReqHeader = (if m = ''POST''
                                  then [(''Content-Type'', ''application/x-www-form-urlencoded'')]
                                  else []),
                     ReqBody = dataString\<rparr>)"

text \<open>
  The loop \<open>for decoder.More() { ... }\<close>. It returns the error on which it stopped, or
  \<open>None\<close> when \<open>More\<close> became false, and the state. On an endless body it does not return.
\<close>

partial_function (option) decodeLoop ::
  "'d env \<Rightarrow> 'd \<Rightarrow> state \<Rightarrow> (error option \<times> state) option" where
  "decodeLoop env d s =
     (if More env d then
        (case Decode env d of
           (Inl err, d1) \<Rightarrow> Some (Some err, s)
         | (Inr m, d1) \<Rightarrow>
             (case MarshalIndent env m of
                Inl err \<Rightarrow> Some (Some err, s)
              | Inr b \<Rightarrow> decodeLoop env d1 (s\<lparr>stdout := stdout s @ [Println b]\<rparr>)))
      else Some (None, s))"

text \<open>
  \<open>doAPICall\<close> returns its two results, the string and the error (\<open>None\<close> for \<open>nil\<close>), and
  the state; \<open>None\<close> when it does not return. After the loop it starts the goroutine,
  which runs later: the header is added to \<open>wg\<close>.
\<close>

definition doAPICall ::
  "'d env \<Rightarrow> string \<Rightarrow> string \<Rightarrow> (string \<times> string list) list option \<Rightarrow> state \<Rightarrow>
     ((string \<times> error option) \<times> state) option" where
  "doAPICall env endpoint method data s =
     (case newRequest env endpoint method data of
        Inl err \<Rightarrow> Some (([], Some err), s)
      | Inr req \<Rightarrow>
          (case Do env req of
             Inl err \<Rightarrow> Some (([], Some err), s)
           | Inr resp \<Rightarrow>
               (case decodeLoop env (Body resp) s of
                  None \<Rightarrow> None
                | Some (Some err, s1) \<Rightarrow> Some (([], Some err), s1)
                | Some (None, s1) \<Rightarrow> Some (([], None), s1\<lparr>wg := wg s1 @ [Header resp]\<rparr>))))"

definition get :: "'d env \<Rightarrow> string \<Rightarrow> state \<Rightarrow> ((string \<times> error option) \<times> state) option" where
  "get env url s = doAPICall env url ''GET'' None s"

definition post ::
  "'d env \<Rightarrow> string \<Rightarrow> (string \<times> string list) list option \<Rightarrow> state \<Rightarrow>
     ((string \<times> error option) \<times> state) option" where
  "post env url data s = doAPICall env url ''POST'' data s"

section \<open>The operations on quotes and accounts\<close>

definition streamQuotes ::
  "'d env \<Rightarrow> string list \<Rightarrow> state \<Rightarrow> ((string \<times> error option) \<times> state) option" where
  "streamQuotes env symbols s =
     (let quotesEndpoint = ''https://devapi-stream.invest.ally.com/v1/market/quotes.json'';
          data = Some [(''symbols'', [strings_Join symbols CHR '',''])]
      in case post env quotesEndpoint data s of
           None \<Rightarrow> None
         | Some ((body, Some err), s1) \<Rightarrow> Some (([], Some err), s1)
         | Some ((body, None), s1) \<Rightarrow> Some ((body, None), s1))"

definition getQuotes ::
  "'d env \<Rightarrow> string list \<Rightarrow> state \<Rightarrow> ((string \<times> error option) \<times> state) option" where
  "getQuotes env symbols s =
     (let quotesEndpoint = ''/market/ext/quotes.json'';
          data = Some [(''symbols'', [strings_Join symbols CHR '',''])]
      in case post env quotesEndpoint data s of
           None \<Rightarrow> None
         | Some ((body, Some err), s1) \<Rightarrow> Some (([], Some err), s1)
         | Some ((body, None), s1) \<Rightarrow> Some ((body, None), s1))"

definition showAccounts ::
  "'d env \<Rightarrow> state \<Rightarrow> ((string \<times> error option) \<times> state) option" where
  "showAccounts env s =
     (let accountsURL = ''/accounts.json''
      in case get env accountsURL s of
           None \<Rightarrow> None
         | Some ((accounts, Some err), s1) \<Rightarrow> Some (([], Some err), s1)
         | Some ((accounts, None), s1) \<Rightarrow> Some ((accounts, None), s1))"

section \<open>Describing a body and a transport\<close>

text \<open>
  \<open>decodes env d bs d1\<close>: from the decoder \<open>d\<close>, \<open>More\<close> holds and \<open>Decode\<close> and
  \<open>MarshalIndent\<close> succeed once for each text of \<open>bs\<close>, in this order, \<open>MarshalIndent\<close>
  giving that text; \<open>d1\<close> is the decoder after the last of them.
\<close>

fun decodes :: "'d env \<Rightarrow> 'd \<Rightarrow> string list \<Rightarrow> 'd \<Rightarrow> bool" where
  "decodes env d [] d1 = (d1 = d)"
| "decodes env d (b # bs) d1 =
     (More env d \<and>
      (case Decode env d of
         (Inl err, d2) \<Rightarrow> False
       | (Inr m, d2) \<Rightarrow> MarshalIndent env m = Inr b \<and> decodes env d2 bs d1))"

text \<open>
  A transport for examples. It answers every request with the header \<open>h\<close> and a body
  that is a list of documents, each either broken or holding an \<open>apiResponse\<close>; the
  decoder takes them one by one, and \<open>MarshalIndent\<close> prints the \<open>Status\<close> only.
\<close>

definition mockEnv :: "header \<Rightarrow> (error + apiResponse) list \<Rightarrow> (error + apiResponse) list env" where
  "mockEnv h docs =
     \<lparr>NewRequest_err = (\<lambda>method url. None),
      Do = (\<lambda>req. Inr \<lparr>Header = h, Body = docs\<rparr>),
      More = (\<lambda>d. d \<noteq> []),
      Decode = (\<lambda>d. case d of [] \<Rightarrow> (Inl (ErrLibrary ''EOF''), []) | x # xs \<Rightarrow> (x, xs)),
      MarshalIndent = (\<lambda>m. Inr (Status m))\<rparr>"

definition doc :: "string \<Rightarrow> apiResponse" where
  "doc st = \<lparr>Status = st, Response = None, Trade = None\<rparr>"

definition state0 :: state where
  "state0 = \<lparr>APICallsRemaining = 0, stdout = [], logged = [], wg = []\<rparr>"

text \<open>The JSON object \<open>{"a": "b"}\<close> of one quote, for examples.\<close>

definition quoteObject :: string where
  "quoteObject =
     [CHR ''{'', CHR 0x22, CHR ''a'', CHR 0x22, CHR '':'', CHR '' '', CHR 0x22, CHR ''b'', CHR 0x22, CHR ''}'']"

section \<open>Properties of \<open>timestampToDate\<close>\<close>

lemma strings_Split_no_sep: "sep \<notin> set s \<Longrightarrow> strings_Split s sep = [s]"
  by (induction s) auto

lemma strings_Split_append:
  "sep \<notin> set a \<Longrightarrow> strings_Split (a @ sep # b) sep = a # strings_Split b sep"
  by (induction a) auto

lemma loop_past_end:
  "length arr \<le> i \<Longrightarrow>
   (\<exists>r. snd (timestampToDate_loop i ss arr lg) = Inr r) = (\<forall>s \<in> set ss. s = [])"
  by (induction ss arbitrary: i) auto

lemma loop_returns_iff:
  "(\<exists>r. snd (timestampToDate_loop 0 ss [0, 0] []) = Inr r) = (\<forall>s \<in> set (drop 2 ss). s = [])"
proof (cases ss)
  case Nil
  then show ?thesis by simp
next
  case (Cons s0 ss1)
  show ?thesis
  proof (cases ss1)
    case Nil
    with Cons show ?thesis by (simp split: prod.splits)
  next
    case (Cons s1 ss2)
    with \<open>ss = s0 # ss1\<close> show ?thesis
      by (simp add: loop_past_end split: prod.splits)
  qed
qed

lemma timestampToDate_returns_iff:
  "(\<exists>t. snd (timestampToDate str) = Inr t) =
   (\<forall>s \<in> set (drop 2 (strings_Split str CHR ''.'')). s = [])"
proof -
  have "(\<exists>t. snd (timestampToDate str) = Inr t) =
        (\<exists>r. snd (timestampToDate_loop 0 (strings_Split str CHR ''.'') [0, 0] []) = Inr r)"
    by (auto simp: timestampToDate_def split: prod.splits sum.splits)
  then show ?thesis by (simp only: loop_returns_iff)
qed

lemmas eval_ParseInt =
  strconv_ParseInt_def strconv_ParseUint_def isDigit_def digitVal_def maxUint64_def
  maxInt64_def minInt64_def

text \<open>
  C7. The input \<open>"1609459200.500000000"\<close> yields the Unix time of 1609459200 seconds
  (2021-01-01T00:00:00Z) and 500000000 nanoseconds, and nothing is logged. In general, for
  an input \<open>a.b\<close> with one dot and two pieces that are not empty, the time is
  \<open>time.Unix\<close> of what \<open>ParseInt\<close> returns for \<open>a\<close> and for \<open>b\<close>, and one line is logged for
  each piece that \<open>ParseInt\<close> reports an error on.
\<close>

theorem timestampToDate_decomposes:
  "timestampToDate ''1609459200.500000000''
     = ([], Inr \<lparr>unixSec = 1609459200, unixNsec = 500000000\<rparr>) \<and>
   (\<forall>a b. CHR ''.'' \<notin> set a \<and> CHR ''.'' \<notin> set b \<and> a \<noteq> [] \<and> b \<noteq> [] \<longrightarrow>
      timestampToDate (a @ CHR ''.'' # b) =
        ((if snd (strconv_ParseInt a) \<noteq> None then [LogTimestampError] else []) @
         (if snd (strconv_ParseInt b) \<noteq> None then [LogTimestampError] else []),
         Inr (time_Unix (fst (strconv_ParseInt a)) (fst (strconv_ParseInt b)))))"
proof (intro conjI allI impI)
  show "timestampToDate ''1609459200.500000000''
     = ([], Inr \<lparr>unixSec = 1609459200, unixNsec = 500000000\<rparr>)"
    by (simp add: timestampToDate_def eval_ParseInt time_Unix_def)
next
  fix a b :: string
  assume "CHR ''.'' \<notin> set a \<and> CHR ''.'' \<notin> set b \<and> a \<noteq> [] \<and> b \<noteq> []"
  then show "timestampToDate (a @ CHR ''.'' # b) =
        ((if snd (strconv_ParseInt a) \<noteq> None then [LogTimestampError] else []) @
         (if snd (strconv_ParseInt b) \<noteq> None then [LogTimestampError] else []),
         Inr (time_Unix (fst (strconv_ParseInt a)) (fst (strconv_ParseInt b))))"
    by (simp add: timestampToDate_def strings_Split_append strings_Split_no_sep
          split: prod.splits)
qed

theorem timestampToDate_decomposes_witness:
  "timestampToDate ''12.x'' = ([LogTimestampError], Inr \<lparr>unixSec = 12, unixNsec = 0\<rparr>)"
  using timestampToDate_decomposes [THEN conjunct2, rule_format, of "''12''" "''x''"]
  by (simp add: eval_ParseInt time_Unix_def)

text \<open>
  C10, as amended. \<open>timestampToDate\<close> returns a time exactly when every piece of the
  input at position three or later is empty, so on every input with at most two pieces;
  when a piece at position three or later is not empty, the index is out of range and
  it panics.
\<close>

theorem timestampToDate_total_iff:
  "((\<exists>t. snd (timestampToDate str) = Inr t) \<longleftrightarrow>
      (\<forall>s \<in> set (drop 2 (strings_Split str CHR ''.'')). s = [])) \<and>
   (snd (timestampToDate str) = Inl IndexOutOfRange \<longleftrightarrow>
      (\<exists>s \<in> set (drop 2 (strings_Split str CHR ''.'')). s \<noteq> [])) \<and>
   (length (strings_Split str CHR ''.'') \<le> 2 \<longrightarrow> (\<exists>t. snd (timestampToDate str) = Inr t))"
proof -
  have r: "(\<exists>t. snd (timestampToDate str) = Inr t) \<longleftrightarrow>
      (\<forall>s \<in> set (drop 2 (strings_Split str CHR ''.'')). s = [])"
    by (rule timestampToDate_returns_iff)
  have "snd (timestampToDate str) = Inl IndexOutOfRange \<longleftrightarrow> \<not> (\<exists>t. snd (timestampToDate str) = Inr t)"
    by (cases "snd (timestampToDate str)") (auto intro: panic.exhaust)
  with r show ?thesis by auto
qed

theorem timestampToDate_total_iff_witness:
  "snd (timestampToDate ''1.2.3'') = Inl IndexOutOfRange \<and>
   (\<exists>t. snd (timestampToDate ''7'') = Inr t)"
  using timestampToDate_total_iff [of "''1.2.3''"] timestampToDate_total_iff [of "''7''"]
  by simp

text \<open>
  The input \<open>"1.2."\<close> has three pieces, the third one empty, and \<open>timestampToDate\<close>
  returns a time on it.
\<close>

theorem timestampToDate_three_pieces:
  "length (strings_Split ''1.2.'' CHR ''.'') = 3 \<and>
   timestampToDate ''1.2.'' = ([], Inr \<lparr>unixSec = 1, unixNsec = 2\<rparr>)"
  by (simp add: timestampToDate_def eval_ParseInt time_Unix_def)

section \<open>Properties of \<open>quoteArray.UnmarshalJSON\<close>\<close>

text \<open>
  C1, as amended. \<open>UnmarshalJSON\<close> looks at the first byte of its input. Empty input is
  the error \<open>"No input"\<close>. With \<open>[\<close> first, the input is decoded as a slice of maps, and
  the result is that slice or the error of the decoder. With \<open>{\<close> first, it is decoded as
  one map, and the result is the slice of that one map, or the error of the decoder. With
  any other first byte the method returns no error and leaves the quote array as it was.
\<close>

theorem UnmarshalJSON_first_byte:
  "UnmarshalJSON unq qa [] = Inl ErrNoInput \<and>
   UnmarshalJSON unq qa (CHR ''['' # rest) =
     (case json_Unmarshal_slice unq (CHR ''['' # rest) of Inl err \<Rightarrow> Inl err | Inr q \<Rightarrow> Inr q) \<and>
   UnmarshalJSON unq qa (CHR ''{'' # rest) =
     (case json_Unmarshal_map unq (CHR ''{'' # rest) of Inl err \<Rightarrow> Inl err | Inr mp \<Rightarrow> Inr [mp]) \<and>
   (c \<noteq> CHR ''['' \<and> c \<noteq> CHR ''{'' \<longrightarrow> UnmarshalJSON unq qa (c # rest) = Inr qa)"
  by (simp add: UnmarshalJSON_def)

theorem UnmarshalJSON_first_byte_witness:
  "UnmarshalJSON (\<lambda>raw. raw) [None] ''null'' = Inr [None]"
  using UnmarshalJSON_first_byte [of "\<lambda>raw. raw" "[None]" "''ull''" "CHR ''n''"]
  by simp

text \<open>The input \<open>x\<close> is neither empty nor starts with \<open>[\<close> or \<open>{\<close>, and is no error.\<close>

theorem UnmarshalJSON_other_byte_no_error:
  "UnmarshalJSON (\<lambda>raw. raw) [] ''x'' = Inr []"
  by (simp add: UnmarshalJSON_def)

lemma mapStep_Error: "foldl (mapStep unq) MapError cs = MapError"
  by (induction cs) auto

text \<open>After the object only white space may follow; an array accepts it there as well.\<close>

lemma mapStep_End:
  "foldl (mapStep unq) (MapEnd r) cs = MapEnd r1 \<Longrightarrow>
   r1 = r \<and> foldl (sliceStep unq) (SliceAfterValue q) cs = SliceAfterValue q"
proof (induction cs)
  case Nil
  then show ?case by simp
next
  case (Cons c cs)
  show ?case
  proof (cases "isSpace c")
    case True
    with Cons show ?thesis by simp
  next
    case False
    with Cons.prems show ?thesis by (simp add: mapStep_Error)
  qed
qed

text \<open>
  Inside the object the decoder of a map and the decoder of a slice take the same steps,
  both through \<open>objStep\<close>.
\<close>

lemma mapStep_Obj:
  "foldl (mapStep unq) (MapObj st) cs = MapEnd r \<Longrightarrow>
   \<exists>m. r = Some m \<and> foldl (sliceStep unq) (SliceObj q st) cs = SliceAfterValue (q @ [Some m])"
proof (induction cs arbitrary: st)
  case Nil
  then show ?case by simp
next
  case (Cons c cs)
  show ?case
  proof (cases "objStep unq st c")
    case (ObjEnd m)
    with Cons.prems have "foldl (mapStep unq) (MapEnd (Some m)) cs = MapEnd r" by simp
    from mapStep_End [OF this, of "q @ [Some m]"] ObjEnd show ?thesis by simp
  next
    case ObjError
    with Cons.prems show ?thesis by (simp add: mapStep_Error)
  qed (use Cons in simp_all)
qed

lemma object_in_array:
  assumes "json_Unmarshal_map unq (CHR ''{'' # rest) = Inr mp"
  shows "json_Unmarshal_slice unq (CHR ''['' # CHR ''{'' # rest @ '']'') = Inr [mp]"
proof -
  from assms have "\<exists>r. foldl (mapStep unq) MapBegin (CHR ''{'' # rest) = MapEnd r \<and> r = mp"
    by (auto simp: json_Unmarshal_map_def split: mapState.splits)
  then have e: "foldl (mapStep unq) (MapObj (ObjFirstKey Map.empty)) rest = MapEnd mp"
    by (simp add: isSpace_def)
  from mapStep_Obj [OF e, of "[]"] obtain m where
    "mp = Some m"
    "foldl (sliceStep unq) (SliceObj [] (ObjFirstKey Map.empty)) rest = SliceAfterValue [Some m]"
    by auto
  then show ?thesis
    by (simp add: json_Unmarshal_slice_def isSpace_def sliceElem_def)
qed

text \<open>
  C2. For every input \<open>data\<close> that starts with \<open>{\<close> and that \<open>json.Unmarshal\<close> decodes
  into a map \<open>mp\<close> without error (a valid JSON object of one quote), \<open>UnmarshalJSON\<close>
  yields the slice of the one element \<open>mp\<close>, and it yields the same slice on the JSON
  array \<open>[data]\<close>.
\<close>

theorem UnmarshalJSON_object_as_array:
  assumes "data \<noteq> []" and "data ! 0 = CHR ''{''"
    and "json_Unmarshal_map unq data = Inr mp"
  shows "UnmarshalJSON unq qa data = Inr [mp] \<and>
         UnmarshalJSON unq qa (CHR ''['' # data @ '']'') = Inr [mp]"
proof -
  from assms obtain rest where "data = CHR ''{'' # rest" by (cases data) auto
  with assms object_in_array [of unq rest mp] show ?thesis
    by (simp add: UnmarshalJSON_def)
qed

theorem UnmarshalJSON_object_as_array_witness:
  "json_Unmarshal_map (\<lambda>raw. raw) quoteObject = Inr (Some [''a'' \<mapsto> ''b'']) \<and>
   UnmarshalJSON (\<lambda>raw. raw) [] quoteObject = Inr [Some [''a'' \<mapsto> ''b'']] \<and>
   UnmarshalJSON (\<lambda>raw. raw) [] (CHR ''['' # quoteObject @ '']'') = Inr [Some [''a'' \<mapsto> ''b'']]"
proof -
  have 1: "quoteObject \<noteq> []" by (simp add: quoteObject_def)
  have 2: "quoteObject ! 0 = CHR ''{''" by (simp add: quoteObject_def)
  have 3: "json_Unmarshal_map (\<lambda>raw. raw) quoteObject = Inr (Some [''a'' \<mapsto> ''b''])"
    by (simp add: quoteObject_def json_Unmarshal_map_def isSpace_def)
  from UnmarshalJSON_object_as_array [OF 1 2 3, of "[]"] 3 show ?thesis by simp
qed

section \<open>Properties of \<open>doAPICall\<close>\<close>

lemma decodeLoop_decodes:
  "decodes env d bs d1 \<Longrightarrow>
   decodeLoop env d s = decodeLoop env d1 (s\<lparr>stdout := stdout s @ map Println bs\<rparr>)"
proof (induction bs arbitrary: d s)
  case Nil
  then show ?case by simp
next
  case (Cons b bs)
  from Cons.prems obtain m d2 where
    step: "More env d" "Decode env d = (Inr m, d2)" "MarshalIndent env m = Inr b"
    and rest: "decodes env d2 bs d1"
    by (auto split: prod.splits sum.splits)
  have "decodeLoop env d s = decodeLoop env d2 (s\<lparr>stdout := stdout s @ [Println b]\<rparr>)"
    using step by (subst decodeLoop.simps) simp
  also have "\<dots> = decodeLoop env d1 (s\<lparr>stdout := stdout s @ map Println (b # bs)\<rparr>)"
    using Cons.IH [OF rest] by simp
  finally show ?case .
qed

lemma decodeLoop_stop: "\<not> More env d \<Longrightarrow> decodeLoop env d s = Some (None, s)"
  by (subst decodeLoop.simps) simp

lemma decodeLoop_fail:
  "More env d \<Longrightarrow> fst (Decode env d) = Inl err \<Longrightarrow> decodeLoop env d s = Some (Some err, s)"
  by (subst decodeLoop.simps) (cases "Decode env d", simp)

lemma doAPICall_string:
  "doAPICall env endpoint method data s = Some ((out, err), s1) \<Longrightarrow> out = []"
  by (auto simp: doAPICall_def split: sum.splits option.splits prod.splits)

lemmas eval_mock = mockEnv_def doc_def state0_def newRequest_def strings_HasPrefix_def

text \<open>
  C3, as amended. When the request is built and the transport answers, and the body of
  the response holds two documents that decode and print as \<open>b1\<close> and \<open>b2\<close> and nothing
  after them, the call returns the empty string and no error, has printed exactly the two
  lines \<open>b1\<close> and \<open>b2\<close> in this order, and has started exactly one update of the rate limit,
  with the header of the response.
\<close>

theorem doAPICall_two_documents:
  assumes "newRequest env endpoint method data = Inr req"
    and "Do env req = Inr resp"
    and "decodes env (Body resp) [b1, b2] d1"
    and "\<not> More env d1"
  shows "doAPICall env endpoint method data s =
           Some (([], None), s\<lparr>stdout := stdout s @ [Println b1, Println b2],
                               wg := wg s @ [Header resp]\<rparr>)"
proof -
  have "decodeLoop env (Body resp) s =
          Some (None, s\<lparr>stdout := stdout s @ map Println [b1, b2]\<rparr>)"
    using decodeLoop_decodes [OF assms(3)] decodeLoop_stop [OF assms(4)] by simp
  with assms(1,2) show ?thesis by (simp add: doAPICall_def)
qed

theorem doAPICall_two_documents_witness:
  "doAPICall (mockEnv Map.empty [Inr (doc ''one''), Inr (doc ''two'')])
     ''/accounts.json'' ''GET'' None state0
   = Some (([], None), state0\<lparr>stdout := [Println ''one'', Println ''two''], wg := [Map.empty]\<rparr>)"
proof -
  let ?env = "mockEnv Map.empty [Inr (doc ''one''), Inr (doc ''two'')]"
  let ?req = "\<lparr>Method = ''GET'', URL = apiRoot @ ''/accounts.json'', ReqHeader = [], ReqBody = []\<rparr>"
  let ?resp = "\<lparr>Header = Map.empty, Body = [Inr (doc ''one''), Inr (doc ''two'')]\<rparr>"
  have 1: "newRequest ?env ''/accounts.json'' ''GET'' None = Inr ?req"
    by (simp add: eval_mock)
  have 2: "Do ?env ?req = Inr ?resp"
    by (simp add: eval_mock)
  have 3: "decodes ?env (Body ?resp) [''one'', ''two''] []"
    by (simp add: eval_mock)
  have 4: "\<not> More ?env []"
    by (simp add: eval_mock)
  from doAPICall_two_documents [OF 1 2 3 4, of state0] show ?thesis
    by (simp add: state0_def)
qed

text \<open>
  One call on a body of two documents: two lines printed, and one goroutine under \<open>wg\<close>,
  not two.
\<close>

theorem doAPICall_two_documents_one_update:
  "map_option (\<lambda>(r, s). (r, stdout s, length (wg s)))
     (doAPICall (mockEnv Map.empty [Inr (doc ''one''), Inr (doc ''two'')])
        ''/accounts.json'' ''GET'' None state0)
   = Some (([], None), [Println ''one'', Println ''two''], 1)"
  by (simp add: doAPICall_def eval_mock decodeLoop.simps)

text \<open>
  C6, as amended. When the values of the body decode and print as the texts \<open>bs\<close> and
  decoding the value after them fails with \<open>err\<close>, the call returns \<open>err\<close> and starts no
  update of the rate limit; it has printed the lines \<open>bs\<close> of the values before the
  failure and nothing else. So nothing is printed only when the first value fails.
\<close>

theorem doAPICall_decode_failure:
  assumes "newRequest env endpoint method data = Inr req"
    and "Do env req = Inr resp"
    and "decodes env (Body resp) bs d1"
    and "More env d1"
    and "fst (Decode env d1) = Inl err"
  shows "doAPICall env endpoint method data s =
           Some (([], Some err), s\<lparr>stdout := stdout s @ map Println bs\<rparr>)"
proof -
  have "decodeLoop env (Body resp) s =
          Some (Some err, s\<lparr>stdout := stdout s @ map Println bs\<rparr>)"
    using decodeLoop_decodes [OF assms(3)] decodeLoop_fail [OF assms(4,5)] by simp
  with assms(1,2) show ?thesis by (simp add: doAPICall_def)
qed

theorem doAPICall_decode_failure_witness:
  "doAPICall (mockEnv Map.empty [Inl ErrJSON, Inr (doc ''two'')])
     ''/accounts.json'' ''GET'' None state0
   = Some (([], Some ErrJSON), state0)"
proof -
  let ?env = "mockEnv Map.empty [Inl ErrJSON, Inr (doc ''two'')]"
  let ?req = "\<lparr>Method = ''GET'', URL = apiRoot @ ''/accounts.json'', ReqHeader = [], ReqBody = []\<rparr>"
  let ?resp = "\<lparr>Header = Map.empty, Body = [Inl ErrJSON, Inr (doc ''two'')]\<rparr>"
  have 1: "newRequest ?env ''/accounts.json'' ''GET'' None = Inr ?req"
    by (simp add: eval_mock)
  have 2: "Do ?env ?req = Inr ?resp"
    by (simp add: eval_mock)
  have 3: "decodes ?env (Body ?resp) [] [Inl ErrJSON, Inr (doc ''two'')]"
    by (simp add: eval_mock)
  have 4: "More ?env [Inl ErrJSON, Inr (doc ''two'')]"
    by (simp add: eval_mock)
  have 5: "fst (Decode ?env [Inl ErrJSON, Inr (doc ''two'')]) = Inl ErrJSON"
    by (simp add: eval_mock)
  from doAPICall_decode_failure [OF 1 2 3 4 5, of state0] show ?thesis
    by (simp add: state0_def)
qed

text \<open>
  The second of three documents is broken: the call returns its error, and the line of
  the first document is printed, which is neither the full response nor nothing.
\<close>

theorem doAPICall_partial_output:
  "doAPICall (mockEnv Map.empty [Inr (doc ''one''), Inl ErrJSON, Inr (doc ''three'')])
     ''/accounts.json'' ''GET'' None state0
   = Some (([], Some ErrJSON), state0\<lparr>stdout := [Println ''one'']\<rparr>)"
  by (simp add: doAPICall_def eval_mock decodeLoop.simps)

text \<open>
  C9. When \<open>doAPICall\<close> returns without error, the string it returns is empty; and so
  for \<open>getQuotes\<close>, \<open>streamQuotes\<close> and \<open>showAccounts\<close>, which pass it on.
\<close>

theorem doAPICall_returns_empty_string:
  "(doAPICall env endpoint method data s = Some ((out, None), s1) \<longrightarrow> out = []) \<and>
   (getQuotes env symbols s = Some ((out, None), s1) \<longrightarrow> out = []) \<and>
   (streamQuotes env symbols s = Some ((out, None), s1) \<longrightarrow> out = []) \<and>
   (showAccounts env s = Some ((out, None), s1) \<longrightarrow> out = [])"
  by (auto simp: getQuotes_def streamQuotes_def showAccounts_def get_def post_def
      split: option.splits prod.splits dest: doAPICall_string)

end
